theory Spec2Isabelle
  imports Main "HOL-Library.Word"
begin

section \<open>Errors, panics and the transport (textproto.go)\<close>

text \<open>
  Go strings are byte strings: \<open>string\<close> (a list of 8-bit \<open>char\<close>) models them,
  \<open>length\<close> is \<open>len\<close>, \<open>take\<close>/\<open>drop\<close> are the slices \<open>s[0:n]\<close> and \<open>s[n:]\<close>
  once the bounds have been checked. A slice or index out of range is a run-time panic
  in Go; it is the outcome \<open>Panic\<close> here.
\<close>

datatype strconv_err = ErrSyntax | ErrRange

datatype error =
    ErrorString string             \<comment> \<open>\<open>errors.New(msg)\<close>; \<open>io.EOF\<close> is \<open>errors.New("EOF")\<close>\<close>
  | NumError string string strconv_err  \<comment> \<open>\<open>*strconv.NumError{Func, Num, Err}\<close>\<close>
  | NetError string                \<comment> \<open>a failure of the underlying stream\<close>

datatype 'a outcome = Panic | Return 'a

text \<open>
  \<open>Reader\<close> lists what the successive calls of \<open>c.Reader.ReadLine()\<close> will return: a
  line (without its line ending) or an error. Once the list is used up the stream is at
  its end and every further read returns \<open>io.EOF\<close>. \<open>Writer\<close> lists the byte strings
  flushed to the stream, one per \<open>SendCMD\<close>; the source ignores write errors, and so
  does the model.
\<close>

record Connection =
  Reader :: "(error + string) list"
  Writer :: "string list"
  closed :: bool

definition crlf :: string where
  "crlf = [CHR 0x0D, CHR 0x0A]"

definition okResponse :: string where
  "okResponse = ''+OK''"

definition endResponse :: string where
  "endResponse = ''.''"

definition EOF :: error where
  "EOF = ErrorString ''EOF''"

definition NewConnection :: "(error + string) list \<Rightarrow> Connection" where
  "NewConnection input = \<lparr>Reader = input, Writer = [], closed = False\<rparr>"

definition Close :: "Connection \<Rightarrow> Connection" where
  "Close c = c\<lparr>closed := True\<rparr>"

text \<open>One call of \<open>bufio.Reader.ReadLine\<close>: the line, the error, the reader afterwards.\<close>

definition ReadLine :: "Connection \<Rightarrow> string \<times> error option \<times> Connection" where
  "ReadLine c =
     (case Reader c of
        [] \<Rightarrow> ([], Some EOF, c)
      | Inl e # rs \<Rightarrow> ([], Some e, c\<lparr>Reader := rs\<rparr>)
      | Inr l # rs \<Rightarrow> (l, None, c\<lparr>Reader := rs\<rparr>))"

text \<open>
  \<open>SendCMD\<close> takes the line already formatted by \<open>fmt.Fprintf\<close>, appends CR LF and
  flushes.
\<close>

definition SendCMD :: "Connection \<Rightarrow> string \<Rightarrow> Connection" where
  "SendCMD c cmd = c\<lparr>Writer := Writer c @ [cmd @ crlf]\<rparr>"

text \<open>
  \<open>ReadResponse\<close>, statement by statement: \<open>line[0:3]\<close> panics on a line shorter than
  3 bytes, \<open>line[5:]\<close> on one shorter than 5; only \<open>line[4:]\<close> is guarded by a length
  test. The result is assigned after the error, on positive and negative replies alike.
\<close>

definition ReadResponse :: "Connection \<Rightarrow> (string \<times> error option \<times> Connection) outcome" where
  "ReadResponse c =
     (case ReadLine c of
        (response, Some e, c') \<Rightarrow> Return ([], Some e, c')
      | (line, None, c') \<Rightarrow>
          if length line < 3 then Panic
          else
            (case (if take 3 line \<noteq> okResponse
                   then (if length line < 5 then Panic
                         else Return (Some (ErrorString (drop 5 line))))
                   else Return None) of
               Panic \<Rightarrow> Panic
             | Return err \<Rightarrow>
                 Return (if 4 \<le> length line then drop 4 line else [], err, c')))"

definition Cmd :: "Connection \<Rightarrow> string \<Rightarrow> (string \<times> error option \<times> Connection) outcome" where
  "Cmd c cmd = ReadResponse (SendCMD c cmd)"

text \<open>
  The loop of \<open>ReadMultiLines\<close> over the pending reads, with the lines collected so far.
  \<open>lines\<close> is a named result: the bare \<open>return\<close> hands it back whatever it holds, also
  when \<open>err\<close> is set.
\<close>

fun readLoop :: "(error + string) list \<Rightarrow> string list
    \<Rightarrow> string list \<times> error option \<times> (error + string) list" where
  "readLoop [] lines = (lines, Some EOF, [])"
| "readLoop (Inl e # rs) lines = (lines, Some e, rs)"
| "readLoop (Inr line # rs) lines =
     (if line = endResponse then (lines, None, rs)
      else readLoop rs
             (lines @ [if 0 < length line \<and> [hd line] = ''.'' then drop 1 line else line]))"

definition ReadMultiLines :: "Connection \<Rightarrow> string list \<times> error option \<times> Connection" where
  "ReadMultiLines c =
     (case readLoop (Reader c) [] of (lines, err, rs) \<Rightarrow> (lines, err, c\<lparr>Reader := rs\<rparr>))"


subsection \<open>What \<open>ReadLine\<close> makes of the bytes on the wire\<close>







section \<open>Library functions used by the command client\<close>

text \<open>
  \<open>strings.Fields\<close> of the Go standard library. A string of ASCII bytes is split at the
  bytes of the table \<open>asciiSpace\<close> (tab, LF, VT, FF, CR, space). As soon as one byte is
  \<open>0x80\<close> or more the string goes to \<open>FieldsFunc(s, unicode.IsSpace)\<close>, which walks the
  string rune by rune as \<open>range\<close> does: \<open>utf8.DecodeRuneInString\<close> gives the rune and its
  width, \<open>RuneError\<close> of width 1 for a byte that starts no valid encoding. A rune is a
  code point, a \<open>nat\<close>.
\<close>

definition isSpace :: "char \<Rightarrow> bool" where
  "isSpace ch = (ch = CHR 0x09 \<or> ch = CHR 0x0A \<or> ch = CHR 0x0B \<or> ch = CHR 0x0C
                 \<or> ch = CHR 0x0D \<or> ch = CHR '' '')"

fun fieldsFrom :: "string \<Rightarrow> string \<Rightarrow> string list" where
  "fieldsFrom cur [] = (if cur = [] then [] else [cur])"
| "fieldsFrom cur (ch # s) =
     (if isSpace ch then (if cur = [] then fieldsFrom [] s else cur # fieldsFrom [] s)
      else fieldsFrom (cur @ [ch]) s)"

definition RuneError :: nat where
  "RuneError = 0xFFFD"

definition byteAt :: "string \<Rightarrow> nat \<Rightarrow> nat" where
  "byteAt s i = of_char (s ! i)"

text \<open>
  The first byte gives the width and the range the second byte must lie in
  (\<open>0xE0\<close>, \<open>0xED\<close>, \<open>0xF0\<close> and \<open>0xF4\<close> narrow it); the later bytes are continuation
  bytes, \<open>0x80\<close> to \<open>0xBF\<close>.
\<close>

definition DecodeRuneInString :: "string \<Rightarrow> nat \<times> nat" where
  "DecodeRuneInString s =
     (if length s < 1 then (RuneError, 0)
      else if byteAt s 0 < 0x80 then (byteAt s 0, 1)
      else if byteAt s 0 < 0xC2 \<or> 0xF4 < byteAt s 0 then (RuneError, 1)
      else
        let s0 = byteAt s 0;
            sz = (if s0 < 0xE0 then 2 else if s0 < 0xF0 then 3 else 4 :: nat);
            lo = (if s0 = 0xE0 then 0xA0 else if s0 = 0xF0 then 0x90 else 0x80);
            hi = (if s0 = 0xED then 0x9F else if s0 = 0xF4 then 0x8F else 0xBF)
        in if length s < sz then (RuneError, 1)
           else if byteAt s 1 < lo \<or> hi < byteAt s 1 then (RuneError, 1)
           else if sz \<le> 2 then (s0 mod 0x20 * 0x40 + byteAt s 1 mod 0x40, 2)
           else if byteAt s 2 < 0x80 \<or> 0xBF < byteAt s 2 then (RuneError, 1)
           else if sz \<le> 3
             then (s0 mod 0x10 * 0x1000 + byteAt s 1 mod 0x40 * 0x40 + byteAt s 2 mod 0x40, 3)
           else if byteAt s 3 < 0x80 \<or> 0xBF < byteAt s 3 then (RuneError, 1)
           else (s0 mod 8 * 0x40000 + byteAt s 1 mod 0x40 * 0x1000
                   + byteAt s 2 mod 0x40 * 0x40 + byteAt s 3 mod 0x40, 4))"

text \<open>\<open>unicode.IsSpace\<close>: eight runes of Latin-1, and the table \<open>White_Space\<close> above it.\<close>

definition IsSpace :: "nat \<Rightarrow> bool" where
  "IsSpace r =
     (if r \<le> 0xFF
      then r = 0x09 \<or> r = 0x0A \<or> r = 0x0B \<or> r = 0x0C \<or> r = 0x0D \<or> r = 0x20
           \<or> r = 0x85 \<or> r = 0xA0
      else r = 0x1680 \<or> (0x2000 \<le> r \<and> r \<le> 0x200A) \<or> r = 0x2028 \<or> r = 0x2029
           \<or> r = 0x202F \<or> r = 0x205F \<or> r = 0x3000)"

fun fieldsFuncFrom :: "string \<Rightarrow> string \<Rightarrow> string list" where
  "fieldsFuncFrom cur [] = (if cur = [] then [] else [cur])"
| "fieldsFuncFrom cur (ch # s) =
     (case DecodeRuneInString (ch # s) of
        (r, width) \<Rightarrow>
          if IsSpace r
          then (if cur = [] then fieldsFuncFrom [] (drop (width - 1) s)
                else cur # fieldsFuncFrom [] (drop (width - 1) s))
          else fieldsFuncFrom (cur @ ch # take (width - 1) s) (drop (width - 1) s))"

definition Fields :: "string \<Rightarrow> string list" where
  "Fields s =
     (if list_all (\<lambda>ch. (of_char ch :: nat) < 0x80) s then fieldsFrom [] s
      else fieldsFuncFrom [] s)"

text \<open>\<open>strings.Join\<close>.\<close>

fun Join :: "string list \<Rightarrow> string \<Rightarrow> string" where
  "Join [] sep = []"
| "Join [l] sep = l"
| "Join (l # ls) sep = l @ sep @ Join ls sep"

text \<open>
  The verb \<open>%d\<close> of \<open>fmt\<close> on an unsigned number: its decimal digits, taken from the
  digit table as \<open>strconv\<close> does.
\<close>

definition digits :: string where
  "digits = ''0123456789''"

fun FormatUint :: "nat \<Rightarrow> string" where
  "FormatUint n =
     (if n < 10 then [digits ! n]
      else FormatUint (n div 10) @ [digits ! (n mod 10)])"

declare FormatUint.simps [simp del]

text \<open>
  \<open>strconv.Atoi\<close> of the Go standard library, with \<open>int\<close> of \<open>intSize\<close> bits (64 on the
  usual platforms): one optional sign, then at least one decimal digit and nothing
  else, or a syntax error; a value outside \<open>int\<close> is a range error with the nearest
  bound. Both of Go's results are returned, the value and the error.
\<close>

definition intSize :: nat where
  "intSize = 64"

definition isDigit :: "char \<Rightarrow> bool" where
  "isDigit ch = (48 \<le> (of_char ch :: nat) \<and> (of_char ch :: nat) \<le> 57)"

fun parseDigits :: "string \<Rightarrow> nat \<Rightarrow> nat option" where
  "parseDigits [] n = Some n"
| "parseDigits (ch # s) n =
     (if isDigit ch then parseDigits s (n * 10 + (of_char ch - 48)) else None)"

definition Atoi :: "string \<Rightarrow> int \<times> error option" where
  "Atoi s0 =
     (if s0 = [] then (0, Some (NumError ''Atoi'' s0 ErrSyntax))
      else
        let neg = (hd s0 = CHR ''-'');
            s = (if hd s0 = CHR ''-'' \<or> hd s0 = CHR ''+'' then drop 1 s0 else s0)
        in if s = [] then (0, Some (NumError ''Atoi'' s0 ErrSyntax))
           else
             (case parseDigits s 0 of
                None \<Rightarrow> (0, Some (NumError ''Atoi'' s0 ErrSyntax))
              | Some un \<Rightarrow>
                  if \<not> neg \<and> 2 ^ (intSize - 1) \<le> un
                  then (2 ^ (intSize - 1) - 1, Some (NumError ''Atoi'' s0 ErrRange))
                  else if neg \<and> 2 ^ (intSize - 1) < un
                  then (- (2 ^ (intSize - 1)), Some (NumError ''Atoi'' s0 ErrRange))
                  else (if neg then - int un else int un, None)))"

section \<open>The command client (pop3.go)\<close>

type_synonym uint32 = "32 word"

definition stringToUint32 :: "string \<Rightarrow> uint32 \<times> error option" where
  "stringToUint32 intString =
     (case Atoi intString of
        (val, Some e) \<Rightarrow> (0, Some e)
      | (val, None) \<Rightarrow> (word_of_int val, None))"

text \<open>
  \<open>client.conn\<close> and \<open>client.Text\<close> wrap one stream: \<open>Text\<close> holds its reads and
  writes, \<open>deadline\<close> the deadline now set on it (\<open>None\<close> is Go's zero time, no
  deadline). \<open>timeout\<close> is the \<open>time.Duration\<close>, \<open>now\<close> what \<open>time.Now()\<close> reads.
\<close>

record Client =
  Text :: Connection
  deadline :: "int option"
  timeout :: int
  now :: int

record MessageInfo =
  Seq :: uint32
  Size :: uint32
  Uid :: string

definition lineSeparator :: string where
  "lineSeparator = [CHR 0x0A]"

definition invalidResponse :: error where
  "invalidResponse = ErrorString ''Invalid server response''"

definition setDeadline :: "Client \<Rightarrow> Client" where
  "setDeadline client =
     (if 0 < timeout client then client\<lparr>deadline := Some (now client + timeout client)\<rparr>
      else client)"

definition resetDeadline :: "Client \<Rightarrow> Client" where
  "resetDeadline client =
     (if 0 < timeout client then client\<lparr>deadline := None\<rparr> else client)"

definition UseTimeouts :: "Client \<Rightarrow> int \<Rightarrow> Client" where
  "UseTimeouts client t = client\<lparr>timeout := t\<rparr>"

text \<open>\<open>NewClient\<close> on a stream with the given pending reads, at clock reading \<open>t\<close>.\<close>

definition NewClient :: "(error + string) list \<Rightarrow> int \<Rightarrow> (Client option \<times> error option) outcome" where
  "NewClient input t =
     (let client = setDeadline \<lparr>Text = NewConnection input, deadline = None, timeout = 0, now = t\<rparr>
      in case ReadResponse (Text client) of
           Panic \<Rightarrow> Panic
         | Return (greeting, err, text) \<Rightarrow>
             (let client' = resetDeadline (client\<lparr>Text := text\<rparr>)
              in case err of Some e \<Rightarrow> Return (None, Some e)
                 | None \<Rightarrow> Return (Some client', None)))"

text \<open>
  The commands whose body is \<open>setDeadline; Cmd; resetDeadline; return\<close>:
  \<open>User\<close>, \<open>Pass\<close>, \<open>Dele\<close>, \<open>Noop\<close>, \<open>Rset\<close>.
\<close>

definition simpleCmd :: "Client \<Rightarrow> string \<Rightarrow> (error option \<times> Client) outcome" where
  "simpleCmd client cmd =
     (let client1 = setDeadline client
      in case Cmd (Text client1) cmd of
           Panic \<Rightarrow> Panic
         | Return (reply, err, text) \<Rightarrow> Return (err, resetDeadline (client1\<lparr>Text := text\<rparr>)))"

definition User :: "Client \<Rightarrow> string \<Rightarrow> (error option \<times> Client) outcome" where
  "User client user = simpleCmd client (''USER '' @ user)"

definition Pass :: "Client \<Rightarrow> string \<Rightarrow> (error option \<times> Client) outcome" where
  "Pass client password = simpleCmd client (''PASS '' @ password)"

definition Auth :: "Client \<Rightarrow> string \<Rightarrow> string \<Rightarrow> (error option \<times> Client) outcome" where
  "Auth client username password =
     (case User client username of
        Panic \<Rightarrow> Panic
      | Return (Some e, client') \<Rightarrow> Return (Some e, client')
      | Return (None, client') \<Rightarrow> Pass client' password)"

definition Dele :: "Client \<Rightarrow> uint32 \<Rightarrow> (error option \<times> Client) outcome" where
  "Dele client msg = simpleCmd client (''DELE '' @ FormatUint (unat msg))"

definition Noop :: "Client \<Rightarrow> (error option \<times> Client) outcome" where
  "Noop client = simpleCmd client ''NOOP''"

definition Rset :: "Client \<Rightarrow> (error option \<times> Client) outcome" where
  "Rset client = simpleCmd client ''RSET''"

text \<open>
  \<open>Stat\<close>: \<open>parts[0]\<close> and \<open>parts[1]\<close> panic when the field is missing; every return
  with an error is \<open>return 0, 0, err\<close> and comes before \<open>resetDeadline\<close>.
\<close>

definition Stat :: "Client \<Rightarrow> (uint32 \<times> uint32 \<times> error option \<times> Client) outcome" where
  "Stat client =
     (let client1 = setDeadline client
      in case Cmd (Text client1) ''STAT'' of
           Panic \<Rightarrow> Panic
         | Return (l, Some e, text) \<Rightarrow> Return (0, 0, Some e, client1\<lparr>Text := text\<rparr>)
         | Return (l, None, text) \<Rightarrow>
             (let client2 = client1\<lparr>Text := text\<rparr>; parts = Fields l
              in if length parts < 1 then Panic
                 else
                   (case stringToUint32 (parts ! 0) of
                      (c, Some e) \<Rightarrow> Return (0, 0, Some invalidResponse, client2)
                    | (count, None) \<Rightarrow>
                        if length parts < 2 then Panic
                        else
                          (case stringToUint32 (parts ! 1) of
                             (s, Some e) \<Rightarrow> Return (0, 0, Some invalidResponse, client2)
                           | (size', None) \<Rightarrow>
                               Return (count, size', None, resetDeadline client2)))))"

definition List :: "Client \<Rightarrow> uint32 \<Rightarrow> (uint32 \<times> error option \<times> Client) outcome" where
  "List client msgSeqNum =
     (let client1 = setDeadline client
      in case Cmd (Text client1) (''LIST '' @ FormatUint (unat msgSeqNum)) of
           Panic \<Rightarrow> Panic
         | Return (l, Some e, text) \<Rightarrow> Return (0, Some e, client1\<lparr>Text := text\<rparr>)
         | Return (l, None, text) \<Rightarrow>
             (let client2 = client1\<lparr>Text := text\<rparr>
              in if length (Fields l) < 2 then Panic
                 else
                   (case stringToUint32 (Fields l ! 1) of
                      (s, Some e) \<Rightarrow> Return (0, Some invalidResponse, client2)
                    | (size', None) \<Rightarrow> Return (size', None, resetDeadline client2))))"


text \<open>
  \<open>ListAll\<close>: \<open>msgInfos\<close> is a slice of \<open>len(lines)\<close> nil pointers (\<open>None\<close>) filled
  by index; a line that fails to parse returns the \<open>strconv\<close> error as it is, with the
  slice as filled so far.
\<close>

fun listAllLoop :: "string list \<Rightarrow> nat \<Rightarrow> MessageInfo option list
    \<Rightarrow> (MessageInfo option list \<times> error option) outcome" where
  "listAllLoop [] i msgInfos = Return (msgInfos, None)"
| "listAllLoop (line # rest) i msgInfos =
     (let fields = Fields line
      in if length fields < 1 then Panic
         else
           (case stringToUint32 (fields ! 0) of
              (s, Some e) \<Rightarrow> Return (msgInfos, Some e)
            | (seq, None) \<Rightarrow>
                if length fields < 2 then Panic
                else
                  (case stringToUint32 (fields ! 1) of
                     (s, Some e) \<Rightarrow> Return (msgInfos, Some e)
                   | (size', None) \<Rightarrow>
                       listAllLoop rest (i + 1)
                         (msgInfos[i := Some \<lparr>Seq = seq, Size = size', Uid = []\<rparr>]))))"

definition ListAll :: "Client \<Rightarrow> (MessageInfo option list \<times> error option \<times> Client) outcome" where
  "ListAll client =
     (let client1 = setDeadline client
      in case Cmd (Text client1) ''LIST'' of
           Panic \<Rightarrow> Panic
         | Return (l, Some e, text) \<Rightarrow> Return ([], Some e, client1\<lparr>Text := text\<rparr>)
         | Return (l, None, text) \<Rightarrow>
             (case ReadMultiLines text of
                (lines, Some e, text') \<Rightarrow> Return ([], Some e, client1\<lparr>Text := text'\<rparr>)
              | (lines, None, text') \<Rightarrow>
                  (let client2 = client1\<lparr>Text := text'\<rparr>
                   in case listAllLoop lines 0 (replicate (length lines) None) of
                        Panic \<Rightarrow> Panic
                      | Return (msgInfos, Some e) \<Rightarrow> Return (msgInfos, Some e, client2)
                      | Return (msgInfos, None) \<Rightarrow>
                          Return (msgInfos, None, resetDeadline client2))))"

definition Retr :: "Client \<Rightarrow> uint32 \<Rightarrow> (string \<times> error option \<times> Client) outcome" where
  "Retr client msg =
     (let client1 = setDeadline client
      in case Cmd (Text client1) (''RETR '' @ FormatUint (unat msg)) of
           Panic \<Rightarrow> Panic
         | Return (l, Some e, text) \<Rightarrow> Return ([], Some e, client1\<lparr>Text := text\<rparr>)
         | Return (l, None, text) \<Rightarrow>
             (case ReadMultiLines text of
                (lines, err, text') \<Rightarrow>
                  Return (Join lines lineSeparator, err,
                          resetDeadline (client1\<lparr>Text := text'\<rparr>))))"

definition Quit :: "Client \<Rightarrow> (error option \<times> Client) outcome" where
  "Quit client =
     (let client1 = setDeadline client
      in case Cmd (Text client1) ''QUIT'' of
           Panic \<Rightarrow> Panic
         | Return (l, Some e, text) \<Rightarrow> Return (Some e, client1\<lparr>Text := text\<rparr>)
         | Return (l, None, text) \<Rightarrow> Return (None, client1\<lparr>Text := Close text\<rparr>))"

text \<open>\<open>Uidl\<close> of pop3.go: the verb is \<open>UIDL\<close>, the result the second field as it is.\<close>

definition Uidl :: "Client \<Rightarrow> uint32 \<Rightarrow> (string \<times> error option \<times> Client) outcome" where
  "Uidl client msgSeqNum =
     (let client1 = setDeadline client
      in case Cmd (Text client1) (''UIDL '' @ FormatUint (unat msgSeqNum)) of
           Panic \<Rightarrow> Panic
         | Return (line, Some e, text) \<Rightarrow> Return ([], Some e, client1\<lparr>Text := text\<rparr>)
         | Return (line, None, text) \<Rightarrow>
             (let client2 = client1\<lparr>Text := text\<rparr>
              in if length (Fields line) < 2 then Panic
                 else Return (Fields line ! 1, None, resetDeadline client2)))"

fun uidlAllLoop :: "string list \<Rightarrow> nat \<Rightarrow> MessageInfo option list
    \<Rightarrow> (MessageInfo option list \<times> error option) outcome" where
  "uidlAllLoop [] i msgInfos = Return (msgInfos, None)"
| "uidlAllLoop (line # rest) i msgInfos =
     (let fields = Fields line
      in if length fields < 1 then Panic
         else
           (case stringToUint32 (fields ! 0) of
              (s, Some e) \<Rightarrow> Return (msgInfos, Some e)
            | (seq, None) \<Rightarrow>
                if length fields < 2 then Panic
                else uidlAllLoop rest (i + 1)
                       (msgInfos[i := Some \<lparr>Seq = seq, Size = 0, Uid = fields ! 1\<rparr>])))"

definition UidlAll :: "Client \<Rightarrow> (MessageInfo option list \<times> error option \<times> Client) outcome" where
  "UidlAll client =
     (let client1 = setDeadline client
      in case Cmd (Text client1) ''UIDL'' of
           Panic \<Rightarrow> Panic
         | Return (l, Some e, text) \<Rightarrow> Return ([], Some e, client1\<lparr>Text := text\<rparr>)
         | Return (l, None, text) \<Rightarrow>
             (let client2 = setDeadline (client1\<lparr>Text := text\<rparr>)
              in case ReadMultiLines (Text client2) of
                   (lines, Some e, text') \<Rightarrow> Return ([], Some e, client2\<lparr>Text := text'\<rparr>)
                 | (lines, None, text') \<Rightarrow>
                     (let client3 = client2\<lparr>Text := text'\<rparr>
                      in case uidlAllLoop lines 0 (replicate (length lines) None) of
                           Panic \<Rightarrow> Panic
                         | Return (msgInfos, Some e) \<Rightarrow> Return (msgInfos, Some e, client3)
                         | Return (msgInfos, None) \<Rightarrow>
                             Return (msgInfos, None, resetDeadline client3))))"

subsection \<open>The other variant of the client (src/unnamed/part_000)\<close>

text \<open>
  That file has no timeout: its \<open>Client\<close> is the stream alone, and its methods are
  those above without \<open>setDeadline\<close> and \<open>resetDeadline\<close>, except \<open>Uidl\<close>, which sends
  \<open>LIST\<close> and parses the second field as a number.
\<close>

definition Uidl_part_000 :: "Connection \<Rightarrow> uint32 \<Rightarrow> (uint32 \<times> error option \<times> Connection) outcome" where
  "Uidl_part_000 text0 msgSeqNum =
     (case Cmd text0 (''LIST '' @ FormatUint (unat msgSeqNum)) of
        Panic \<Rightarrow> Panic
      | Return (line, Some e, text) \<Rightarrow> Return (0, Some e, text)
      | Return (line, None, text) \<Rightarrow>
          if length (Fields line) < 2 then Panic
          else
            (case stringToUint32 (Fields line ! 1) of
               (u, Some e) \<Rightarrow> Return (0, Some invalidResponse, text)
             | (uid, None) \<Rightarrow> Return (uid, None, text)))"


definition User_part_000 :: "Connection \<Rightarrow> string \<Rightarrow> (error option \<times> Connection) outcome" where
  "User_part_000 text0 user =
     (case Cmd text0 (''USER '' @ user) of
        Panic \<Rightarrow> Panic
      | Return (reply, err, text) \<Rightarrow> Return (err, text))"

definition Pass_part_000 :: "Connection \<Rightarrow> string \<Rightarrow> (error option \<times> Connection) outcome" where
  "Pass_part_000 text0 password =
     (case Cmd text0 (''PASS '' @ password) of
        Panic \<Rightarrow> Panic
      | Return (reply, err, text) \<Rightarrow> Return (err, text))"

definition Auth_part_000 :: "Connection \<Rightarrow> string \<Rightarrow> string \<Rightarrow> (error option \<times> Connection) outcome" where
  "Auth_part_000 text0 username password =
     (case User_part_000 text0 username of
        Panic \<Rightarrow> Panic
      | Return (Some e, text) \<Rightarrow> Return (Some e, text)
      | Return (None, text) \<Rightarrow> Pass_part_000 text password)"

definition Stat_part_000 :: "Connection \<Rightarrow> (uint32 \<times> uint32 \<times> error option \<times> Connection) outcome" where
  "Stat_part_000 text0 =
     (case Cmd text0 ''STAT'' of
        Panic \<Rightarrow> Panic
      | Return (l, Some e, text) \<Rightarrow> Return (0, 0, Some e, text)
      | Return (l, None, text) \<Rightarrow>
          (let parts = Fields l
           in if length parts < 1 then Panic
              else
                (case stringToUint32 (parts ! 0) of
                   (c, Some e) \<Rightarrow> Return (0, 0, Some invalidResponse, text)
                 | (count, None) \<Rightarrow>
                     if length parts < 2 then Panic
                     else
                       (case stringToUint32 (parts ! 1) of
                          (s, Some e) \<Rightarrow> Return (0, 0, Some invalidResponse, text)
                        | (size', None) \<Rightarrow> Return (count, size', None, text)))))"

section \<open>Notions of the specification\<close>


definition unStuff :: "string \<Rightarrow> string" where
  "unStuff l = (if l \<noteq> [] \<and> hd l = CHR ''.'' then tl l else l)"



text \<open>
  A numeric field in the widest sense: an optional sign and then decimal digits, at
  least one, and nothing else.
\<close>

definition isDecimal :: "string \<Rightarrow> bool" where
  "isDecimal s =
     (let d = (if s \<noteq> [] \<and> (hd s = CHR ''-'' \<or> hd s = CHR ''+'') then tl s else s)
      in d \<noteq> [] \<and> list_all isDigit d)"



section \<open>The transport framer\<close>

text \<open>
  Claim C1 says that \<open>ReadResponse\<close> checks the length of the reply line first and
  answers a line shorter than the marker, the empty line included, with an error. The
  source slices unchecked: on the empty line, on a two-byte line and on the bare
  negative marker \<open>-ERR\<close> the call panics; only \<open>line[4:]\<close> is guarded.
\<close>

theorem ReadResponse_short_line_panics:
  "ReadResponse (NewConnection [Inr '''']) = Panic
   \<and> ReadResponse (NewConnection [Inr ''+O'']) = Panic
   \<and> ReadResponse (NewConnection [Inr ''-ERR'']) = Panic"
  by (simp add: ReadResponse_def ReadLine_def NewConnection_def okResponse_def)

text \<open>
  Claim C2, as amended: on a negative reply, a four-byte marker that does not start
  with \<open>+OK\<close>, a space and the text, \<open>ReadResponse\<close> returns the error whose message is
  the text; the result string is not empty, it is the line from offset 4: the space and
  the text.
\<close>

theorem ReadResponse_negative_reply:
  assumes "length m = 4" and "take 3 m \<noteq> okResponse"
  shows "ReadResponse (c\<lparr>Reader := Inr (m @ '' '' @ msg) # rs\<rparr>)
           = Return ('' '' @ msg, Some (ErrorString msg), c\<lparr>Reader := rs\<rparr>)"
  using assms by (simp add: ReadResponse_def ReadLine_def)

theorem ReadResponse_negative_reply_witness:
  "length ''-ERR'' = 4 \<and> take 3 ''-ERR'' \<noteq> okResponse
   \<and> ReadResponse (NewConnection [Inr ''-ERR no such user'', Inr ''x''])
       = Return ('' no such user'', Some (ErrorString ''no such user''), NewConnection [Inr ''x''])"
  using ReadResponse_negative_reply [where m = "''-ERR''" and msg = "''no such user''"
          and c = "NewConnection []" and rs = "[Inr ''x'']"]
  by (simp add: NewConnection_def okResponse_def)

text \<open>Claim C2 as stated fails: the result that comes with the error is not empty.\<close>

theorem ReadResponse_negative_result_counterexample:
  "ReadResponse (NewConnection [Inr ''-ERR no such user''])
     = Return ('' no such user'', Some (ErrorString ''no such user''), NewConnection [])
   \<and> '' no such user'' \<noteq> ''''"
  by (simp add: ReadResponse_def ReadLine_def NewConnection_def okResponse_def)

text \<open>The body of a multi-line reply, up to the first lone dot.\<close>

lemma readLoop_body:
  "endResponse \<notin> set ws \<Longrightarrow>
   readLoop (map Inr ws @ rest) acc = readLoop rest (acc @ map unStuff ws)"
  by (induction ws arbitrary: acc) (auto simp: drop_Suc unStuff_def)














text \<open>
  Claim C4, as amended: when a read fails before the lone dot (or the stream ends),
  \<open>ReadMultiLines\<close> returns the error together with the lines collected so far,
  un-stuffed and in order; they are not discarded.
\<close>

theorem ReadMultiLines_failure_keeps_lines:
  assumes "endResponse \<notin> set ws"
  shows "ReadMultiLines (c\<lparr>Reader := map Inr ws @ Inl e # rest\<rparr>)
           = (map unStuff ws, Some e, c\<lparr>Reader := rest\<rparr>)
       \<and> ReadMultiLines (c\<lparr>Reader := map Inr ws\<rparr>)
           = (map unStuff ws, Some EOF, c\<lparr>Reader := []\<rparr>)"
  using readLoop_body [OF assms, of "Inl e # rest" "[]"] readLoop_body [OF assms, of "[]" "[]"]
  by (simp add: ReadMultiLines_def)

theorem ReadMultiLines_failure_keeps_lines_witness:
  "endResponse \<notin> set [''a'', ''..b'']
   \<and> ReadMultiLines (NewConnection [Inr ''a'', Inr ''..b'', Inl (NetError ''reset'')])
       = ([''a'', ''.b''], Some (NetError ''reset''), NewConnection [])
   \<and> ReadMultiLines (NewConnection [Inr ''a'', Inr ''..b''])
       = ([''a'', ''.b''], Some EOF, NewConnection [])"
  using ReadMultiLines_failure_keeps_lines [where ws = "[''a'', ''..b'']"
          and c = "NewConnection []" and e = "NetError ''reset''" and rest = "[]"]
  by (simp add: NewConnection_def endResponse_def unStuff_def)

text \<open>Claim C4 as stated fails: the line read before the failure is returned.\<close>

theorem ReadMultiLines_discards_counterexample:
  "fst (ReadMultiLines (NewConnection [Inr ''a'', Inl (NetError ''reset'')])) \<noteq> []
   \<and> fst (snd (ReadMultiLines (NewConnection [Inr ''a'', Inl (NetError ''reset'')])))
       = Some (NetError ''reset'')"
  by (simp add: ReadMultiLines_def NewConnection_def endResponse_def)

section \<open>The command client\<close>

lemma parseDigits_append:
  "parseDigits (xs @ ys) n = (case parseDigits xs n of None \<Rightarrow> None | Some m \<Rightarrow> parseDigits ys m)"
  by (induction xs arbitrary: n) auto

lemma isDigit_char_of: "d < 10 \<Longrightarrow> isDigit (digits ! d) \<and> (of_char (digits ! d) :: nat) = 48 + d"
proof -
  assume "d < 10"
  then have "d \<in> {0, 1, 2, 3, 4, 5, 6, 7, 8, 9}" by auto
  then show ?thesis
    by (auto simp: isDigit_def digits_def)
qed

lemma FormatUint_nonempty: "FormatUint n \<noteq> []"
  by (subst FormatUint.simps) simp

lemma parseDigits_FormatUint: "parseDigits (FormatUint n) 0 = Some n"
proof (induction n rule: FormatUint.induct)
  case (1 n)
  show ?case
  proof (cases "n < 10")
    case True
    then show ?thesis
      using isDigit_char_of [of n] by (subst FormatUint.simps) simp
  next
    case False
    have d: "n mod 10 < 10" by simp
    from False 1 have ih: "parseDigits (FormatUint (n div 10)) 0 = Some (n div 10)" by simp
    show ?thesis
      using False ih isDigit_char_of [OF d]
      by (subst FormatUint.simps) (simp add: parseDigits_append)
  qed
qed

lemma Atoi_negative:
  assumes "n \<le> 2 ^ (intSize - 1)"
  shows "Atoi (CHR ''-'' # FormatUint n) = (- int n, None)"
  using assms FormatUint_nonempty [of n]
  by (simp add: Atoi_def parseDigits_FormatUint)

text \<open>
  Claim C10: \<open>stringToUint32\<close>, the parser of every numeric field, accepts a minus sign.
  For every \<open>n\<close> up to \<open>2 ^ (intSize - 1)\<close> the string of \<open>-\<close> and the decimal digits
  of \<open>n\<close> parses without error, and the value is \<open>- n\<close> converted to \<open>uint32\<close>, that is
  \<open>- n\<close> modulo \<open>2 ^ 32\<close>; \<open>-1\<close> gives 4294967295.
\<close>

theorem stringToUint32_negative_wraps:
  assumes "n \<le> 2 ^ (intSize - 1)"
  shows "stringToUint32 (CHR ''-'' # FormatUint n) = (word_of_int (- int n), None)
       \<and> uint (fst (stringToUint32 (CHR ''-'' # FormatUint n))) = (- int n) mod 2 ^ 32
       \<and> stringToUint32 ''-1'' = (4294967295, None)"
proof -
  have one: "stringToUint32 ''-1'' = (4294967295, None)"
    by (simp add: stringToUint32_def Atoi_def isDigit_def intSize_def)
  have wrap: "uint (word_of_int (- int n) :: uint32) = (- int n) mod 2 ^ 32"
    by (simp only: uint_word_of_int_eq take_bit_eq_mod) simp
  have val: "stringToUint32 (CHR ''-'' # FormatUint n) = (word_of_int (- int n), None)"
    using Atoi_negative [OF assms] by (simp add: stringToUint32_def)
  show ?thesis
    using one wrap by (simp only: val fst_conv)
qed

theorem stringToUint32_negative_wraps_witness:
  "(300::nat) \<le> 2 ^ (intSize - 1)
   \<and> stringToUint32 ''-300'' = (4294966996, None)
   \<and> uint (fst (stringToUint32 ''-300'')) = 4294966996"
proof -
  have r: "(300::nat) \<le> 2 ^ (intSize - 1)" by (simp add: intSize_def)
  have f: "FormatUint 300 = ''300''" by (simp add: FormatUint.simps digits_def)
  show ?thesis
    using r stringToUint32_negative_wraps [OF r] by (simp add: f)
qed


lemmas run = setDeadline_def resetDeadline_def Cmd_def SendCMD_def ReadResponse_def
  ReadLine_def NewConnection_def okResponse_def Fields_def isSpace_def stringToUint32_def
  Atoi_def isDigit_def intSize_def invalidResponse_def

text \<open>
  The same for any digits after the minus sign, leading zeros included, and as the
  counting operations see it: \<open>Stat\<close> on \<open>+OK -1 -2\<close> reports no error.
\<close>

lemma stringToUint32_negative_digits:
  assumes "ds \<noteq> []" and "parseDigits ds 0 = Some n" and "n \<le> 2 ^ (intSize - 1)"
  shows "stringToUint32 (CHR ''-'' # ds) = (word_of_int (- int n), None)"
  using assms by (simp add: stringToUint32_def Atoi_def)

lemma Stat_negative_fields:
  "Stat \<lparr>Text = NewConnection [Inr ''+OK -1 -2''], deadline = None, timeout = 0, now = 100\<rparr>
     = Return (4294967295, 4294967294, None,
         \<lparr>Text = \<lparr>Reader = [], Writer = [''STAT'' @ crlf], closed = False\<rparr>,
          deadline = None, timeout = 0, now = 100\<rparr>)"
  by (simp add: Stat_def run)

lemma ReadResponse_Writer:
  "ReadResponse c = Return (r, err, c') \<Longrightarrow> Writer c' = Writer c"
  by (auto simp: ReadResponse_def ReadLine_def split: list.splits sum.splits if_splits)

lemma Cmd_Writer:
  "Cmd c cmd = Return (r, err, c') \<Longrightarrow> Writer c' = Writer c @ [cmd @ crlf]"
  by (auto simp: Cmd_def SendCMD_def dest: ReadResponse_Writer)

lemma simpleCmd_Writer:
  "simpleCmd client cmd = Return (err, client') \<Longrightarrow>
   Writer (Text client') = Writer (Text client) @ [cmd @ crlf]"
  by (auto simp: simpleCmd_def Let_def setDeadline_def resetDeadline_def
      split: outcome.splits if_splits dest: Cmd_Writer)

text \<open>
  Claim C8: when \<open>User\<close> returns an error, \<open>Auth\<close> returns that error and the state
  \<open>User\<close> left, in which exactly one line has been written since \<open>Auth\<close> began, the
  \<open>USER\<close> command; \<open>PASS\<close> is not sent. Both variants of the client do so.
\<close>

theorem Auth_short_circuits:
  "(User client username = Return (Some e, client') \<longrightarrow>
      Auth client username password = Return (Some e, client')
      \<and> Writer (Text client') = Writer (Text client) @ [''USER '' @ username @ crlf])
   \<and> (User_part_000 conn username = Return (Some e, conn') \<longrightarrow>
      Auth_part_000 conn username password = Return (Some e, conn')
      \<and> Writer conn' = Writer conn @ [''USER '' @ username @ crlf])"
proof (intro conjI impI)
  assume u: "User client username = Return (Some e, client')"
  then show "Auth client username password = Return (Some e, client')"
    by (simp add: Auth_def)
  from u show "Writer (Text client') = Writer (Text client) @ [''USER '' @ username @ crlf]"
    using simpleCmd_Writer [of client "''USER '' @ username" "Some e" client']
    by (simp add: User_def)
next
  assume u: "User_part_000 conn username = Return (Some e, conn')"
  then show "Auth_part_000 conn username password = Return (Some e, conn')"
    by (simp add: Auth_part_000_def)
  from u show "Writer conn' = Writer conn @ [''USER '' @ username @ crlf]"
    by (auto simp: User_part_000_def split: outcome.splits dest: Cmd_Writer)
qed

theorem Auth_short_circuits_witness:
  "User \<lparr>Text = NewConnection [Inr ''-ERR no such user'', Inr ''+OK''], deadline = None, timeout = 5, now = 100\<rparr> ''bob''
     = Return (Some (ErrorString ''no such user''),
         \<lparr>Text = \<lparr>Reader = [Inr ''+OK''], Writer = [''USER bob'' @ crlf], closed = False\<rparr>,
          deadline = None, timeout = 5, now = 100\<rparr>)
   \<and> Auth \<lparr>Text = NewConnection [Inr ''-ERR no such user'', Inr ''+OK''], deadline = None, timeout = 5, now = 100\<rparr> ''bob'' ''secret''
     = Return (Some (ErrorString ''no such user''),
         \<lparr>Text = \<lparr>Reader = [Inr ''+OK''], Writer = [''USER bob'' @ crlf], closed = False\<rparr>,
          deadline = None, timeout = 5, now = 100\<rparr>)
   \<and> User_part_000 (NewConnection [Inr ''-ERR no such user'', Inr ''+OK'']) ''bob''
     = Return (Some (ErrorString ''no such user''),
         \<lparr>Reader = [Inr ''+OK''], Writer = [''USER bob'' @ crlf], closed = False\<rparr>)
   \<and> Auth_part_000 (NewConnection [Inr ''-ERR no such user'', Inr ''+OK'']) ''bob'' ''secret''
     = Return (Some (ErrorString ''no such user''),
         \<lparr>Reader = [Inr ''+OK''], Writer = [''USER bob'' @ crlf], closed = False\<rparr>)"
proof -
  let ?c = "\<lparr>Text = NewConnection [Inr ''-ERR no such user'', Inr ''+OK''], deadline = None, timeout = 5, now = 100\<rparr>"
  let ?c' = "\<lparr>Text = \<lparr>Reader = [Inr ''+OK''], Writer = [''USER bob'' @ crlf], closed = False\<rparr>,
          deadline = None, timeout = 5, now = 100\<rparr>"
  have u: "User ?c ''bob'' = Return (Some (ErrorString ''no such user''), ?c')"
    by (simp add: User_def simpleCmd_def run)
  have v: "User_part_000 (Text ?c) ''bob'' = Return (Some (ErrorString ''no such user''), Text ?c')"
    by (simp add: User_part_000_def run)
  show ?thesis
    using u v Auth_short_circuits [where client = ?c and username = "''bob''"
        and e = "ErrorString ''no such user''" and client' = ?c' and password = "''secret''"
        and conn = "Text ?c" and conn' = "Text ?c'"]
    by simp
qed


lemma Cmd_positive:
  assumes "take 3 line = okResponse"
  shows "Cmd (c\<lparr>Reader := Inr line # rs\<rparr>) cmd
           = Return (drop 4 line, None, c\<lparr>Reader := rs, Writer := Writer c @ [cmd @ crlf]\<rparr>)"
proof -
  have "length line \<ge> 3"
    using assms by (cases "length line < 3") (auto simp: okResponse_def)
  then show ?thesis
    using assms by (simp add: Cmd_def SendCMD_def ReadResponse_def ReadLine_def)
qed

lemma Stat_error_zero:
  "Stat client = Return (count, size', Some e, client') \<Longrightarrow> count = 0 \<and> size' = 0"
  by (auto simp: Stat_def Let_def split: outcome.splits option.splits prod.splits if_splits)

lemma Stat_part_000_error_zero:
  "Stat_part_000 conn = Return (count, size', Some e, conn') \<Longrightarrow> count = 0 \<and> size' = 0"
  by (auto simp: Stat_part_000_def Let_def split: outcome.splits option.splits prod.splits if_splits)

lemma Fields_3_1200: "Fields ''3 1200'' = [''3'', ''1200'']"
  by (simp add: Fields_def isSpace_def)

lemma Fields_abc_1200: "Fields ''abc 1200'' = [''abc'', ''1200'']"
  by (simp add: Fields_def isSpace_def)

lemma stringToUint32_examples:
  "stringToUint32 ''3'' = (3, None)" "stringToUint32 ''1200'' = (1200, None)"
  "stringToUint32 ''abc'' = (0, Some (NumError ''Atoi'' ''abc'' ErrSyntax))"
  by (simp_all add: stringToUint32_def Atoi_def isDigit_def intSize_def)

text \<open>
  Claim C7: on the reply line \<open>+OK 3 1200\<close> \<open>Stat\<close> returns 3, 1200 and no error; on
  \<open>+OK abc 1200\<close> it returns 0, 0 and the error \<open>Invalid server response\<close>; and whenever
  \<open>Stat\<close> returns an error, both numbers are 0. Both variants of the client do so.
\<close>

theorem Stat_replies:
  "Stat (client\<lparr>Text := conn\<lparr>Reader := Inr ''+OK 3 1200'' # rs\<rparr>\<rparr>)
     = Return (3, 1200, None,
         resetDeadline ((setDeadline client)\<lparr>Text := conn\<lparr>Reader := rs, Writer := Writer conn @ [''STAT'' @ crlf]\<rparr>\<rparr>))
   \<and> Stat (client\<lparr>Text := conn\<lparr>Reader := Inr ''+OK abc 1200'' # rs\<rparr>\<rparr>)
     = Return (0, 0, Some invalidResponse,
         (setDeadline client)\<lparr>Text := conn\<lparr>Reader := rs, Writer := Writer conn @ [''STAT'' @ crlf]\<rparr>\<rparr>)
   \<and> (Stat client = Return (count, size', Some e, client') \<longrightarrow> count = 0 \<and> size' = 0)
   \<and> Stat_part_000 (conn\<lparr>Reader := Inr ''+OK 3 1200'' # rs\<rparr>)
     = Return (3, 1200, None, conn\<lparr>Reader := rs, Writer := Writer conn @ [''STAT'' @ crlf]\<rparr>)
   \<and> Stat_part_000 (conn\<lparr>Reader := Inr ''+OK abc 1200'' # rs\<rparr>)
     = Return (0, 0, Some invalidResponse, conn\<lparr>Reader := rs, Writer := Writer conn @ [''STAT'' @ crlf]\<rparr>)
   \<and> (Stat_part_000 conn = Return (count, size', Some e, conn') \<longrightarrow> count = 0 \<and> size' = 0)"
proof -
  have ok: "take 3 ''+OK 3 1200'' = okResponse" "take 3 ''+OK abc 1200'' = okResponse"
    by (simp_all add: okResponse_def)
  have sd: "Text (setDeadline (client\<lparr>Text := c\<rparr>)) = c"
    "setDeadline (client\<lparr>Text := c\<rparr>)\<lparr>Text := c2\<rparr> = (setDeadline client)\<lparr>Text := c2\<rparr>" for c c2
    by (simp_all add: setDeadline_def)
  have 1: "Stat (client\<lparr>Text := conn\<lparr>Reader := Inr ''+OK 3 1200'' # rs\<rparr>\<rparr>)
     = Return (3, 1200, None,
         resetDeadline ((setDeadline client)\<lparr>Text := conn\<lparr>Reader := rs, Writer := Writer conn @ [''STAT'' @ crlf]\<rparr>\<rparr>))"
    by (simp add: Stat_def sd Cmd_positive [OF ok(1)] Fields_3_1200 stringToUint32_examples)
  have 2: "Stat (client\<lparr>Text := conn\<lparr>Reader := Inr ''+OK abc 1200'' # rs\<rparr>\<rparr>)
     = Return (0, 0, Some invalidResponse,
         (setDeadline client)\<lparr>Text := conn\<lparr>Reader := rs, Writer := Writer conn @ [''STAT'' @ crlf]\<rparr>\<rparr>)"
    by (simp add: Stat_def sd Cmd_positive [OF ok(2)] Fields_abc_1200 stringToUint32_examples)
  have 3: "Stat_part_000 (conn\<lparr>Reader := Inr ''+OK 3 1200'' # rs\<rparr>)
     = Return (3, 1200, None, conn\<lparr>Reader := rs, Writer := Writer conn @ [''STAT'' @ crlf]\<rparr>)"
    by (simp add: Stat_part_000_def Cmd_positive [OF ok(1)] Fields_3_1200 stringToUint32_examples)
  have 4: "Stat_part_000 (conn\<lparr>Reader := Inr ''+OK abc 1200'' # rs\<rparr>)
     = Return (0, 0, Some invalidResponse, conn\<lparr>Reader := rs, Writer := Writer conn @ [''STAT'' @ crlf]\<rparr>)"
    by (simp add: Stat_part_000_def Cmd_positive [OF ok(2)] Fields_abc_1200 stringToUint32_examples)
  show ?thesis
    using 1 2 3 4 Stat_error_zero [of client count size' e client']
      Stat_part_000_error_zero [of conn count size' e conn']
    by blast
qed


theorem Stat_replies_witness:
  "Stat \<lparr>Text = NewConnection [Inr ''-ERR locked''], deadline = None, timeout = 5, now = 100\<rparr>
     = Return (0, 0, Some (ErrorString ''locked''),
         \<lparr>Text = \<lparr>Reader = [], Writer = [''STAT'' @ crlf], closed = False\<rparr>,
          deadline = Some 105, timeout = 5, now = 100\<rparr>)
   \<and> Stat_part_000 (NewConnection [Inr ''-ERR locked''])
     = Return (0, 0, Some (ErrorString ''locked''),
         \<lparr>Reader = [], Writer = [''STAT'' @ crlf], closed = False\<rparr>)
   \<and> Stat \<lparr>Text = NewConnection [Inr ''+OK 3 1200''], deadline = None, timeout = 5, now = 100\<rparr>
     = Return (3, 1200, None,
         \<lparr>Text = \<lparr>Reader = [], Writer = [''STAT'' @ crlf], closed = False\<rparr>,
          deadline = None, timeout = 5, now = 100\<rparr>)"
proof -
  let ?c = "\<lparr>Text = NewConnection [Inr ''-ERR locked''], deadline = None, timeout = 5, now = 100\<rparr>"
  let ?c' = "\<lparr>Text = \<lparr>Reader = [], Writer = [''STAT'' @ crlf], closed = False\<rparr>,
          deadline = Some 105, timeout = 5, now = 100\<rparr>"
  have a: "Stat ?c = Return (0, 0, Some (ErrorString ''locked''), ?c')"
    by (simp add: Stat_def run)
  have b: "Stat_part_000 (Text ?c) = Return (0, 0, Some (ErrorString ''locked''), Text ?c')"
    by (simp add: Stat_part_000_def run)
  show ?thesis
    using a b Stat_replies [where client = ?c and conn = "Text ?c" and rs = "[]"
        and count = 0 and size' = 0 and e = "ErrorString ''locked''"
        and client' = ?c' and conn' = "Text ?c'"]
    by (simp add: NewConnection_def setDeadline_def resetDeadline_def)
qed

text \<open>
  Claim C5 says that the deadline set before a command is cleared on every exit path.
  With a timeout of 5 at clock reading 100, \<open>Stat\<close> answered by a negative reply returns
  through \<open>return 0, 0, err\<close>, which comes before \<open>resetDeadline\<close>: the deadline 105 is
  still set on the stream. \<open>Noop\<close>, answered the same way, clears it.
\<close>

theorem Stat_error_leaves_deadline:
  "Stat \<lparr>Text = NewConnection [Inr ''-ERR maildrop locked''], deadline = None, timeout = 5, now = 100\<rparr>
     = Return (0, 0, Some (ErrorString ''maildrop locked''),
         \<lparr>Text = \<lparr>Reader = [], Writer = [''STAT'' @ crlf], closed = False\<rparr>,
          deadline = Some 105, timeout = 5, now = 100\<rparr>)
   \<and> Noop \<lparr>Text = NewConnection [Inr ''-ERR maildrop locked''], deadline = None, timeout = 5, now = 100\<rparr>
     = Return (Some (ErrorString ''maildrop locked''),
         \<lparr>Text = \<lparr>Reader = [], Writer = [''NOOP'' @ crlf], closed = False\<rparr>,
          deadline = None, timeout = 5, now = 100\<rparr>)"
  by (simp add: Stat_def Noop_def simpleCmd_def run)

lemma parseDigits_None: "(parseDigits s n = None) = (\<not> list_all isDigit s)"
  by (induction s arbitrary: n) auto

lemma parseDigits_Some: "parseDigits s n = Some m \<Longrightarrow> list_all isDigit s"
  using parseDigits_None [of s n] by simp

lemma Atoi_not_decimal:
  "\<not> isDecimal s \<Longrightarrow> Atoi s = (0, Some (NumError ''Atoi'' s ErrSyntax))"
  by (cases s) (auto simp: isDecimal_def Atoi_def Let_def drop_Suc
      split: option.splits if_splits dest: parseDigits_Some)

lemma stringToUint32_not_decimal:
  "\<not> isDecimal s \<Longrightarrow> stringToUint32 s = (0, Some (NumError ''Atoi'' s ErrSyntax))"
  by (simp add: stringToUint32_def Atoi_not_decimal)


lemma isDigit_not_sign: "isDigit ch \<Longrightarrow> ch \<noteq> CHR ''-'' \<and> ch \<noteq> CHR ''+''"
  by (auto simp: isDigit_def)

lemma FormatUint_hd: "isDigit (hd (FormatUint n))"
proof (induction n rule: FormatUint.induct)
  case (1 n)
  show ?case
  proof (cases "n < 10")
    case True
    then show ?thesis
      using isDigit_char_of [of n] by (subst FormatUint.simps) simp
  next
    case False
    with 1 show ?thesis
      using FormatUint_nonempty [of "n div 10"] by (subst FormatUint.simps) simp
  qed
qed

lemma Atoi_FormatUint:
  assumes "n < 2 ^ (intSize - 1)"
  shows "Atoi (FormatUint n) = (int n, None)"
  using assms FormatUint_nonempty [of n] isDigit_not_sign [OF FormatUint_hd [of n]]
  by (simp add: Atoi_def parseDigits_FormatUint)

lemma stringToUint32_FormatUint:
  "n < 2 ^ (intSize - 1) \<Longrightarrow> stringToUint32 (FormatUint n) = (of_nat n, None)"
  by (simp add: stringToUint32_def Atoi_FormatUint)

text \<open>
  Claim C9: on a positive reply with at least two fields, \<open>Uidl\<close> of pop3.go has sent
  \<open>UIDL <seq>\<close> and returns the second field as it is, with no error. The variant of
  src/unnamed/part_000 has sent \<open>LIST <seq>\<close> instead and reads that field as a size:
  when the field is the decimal digits of a number \<open>n\<close> within \<open>int\<close> it returns \<open>n\<close> as
  a \<open>uint32\<close>, and when the field is not a decimal number it fails with
  \<open>Invalid server response\<close>. The two are not equivalent.
\<close>

theorem Uidl_variants:
  assumes "take 3 line = okResponse" and "2 \<le> length (Fields (drop 4 line))"
  shows "Uidl (client\<lparr>Text := conn\<lparr>Reader := Inr line # rs\<rparr>\<rparr>) msgSeqNum
           = Return (Fields (drop 4 line) ! 1, None,
               resetDeadline ((setDeadline client)\<lparr>Text := conn\<lparr>Reader := rs,
                 Writer := Writer conn @ [''UIDL '' @ FormatUint (unat msgSeqNum) @ crlf]\<rparr>\<rparr>))
       \<and> (Fields (drop 4 line) ! 1 = FormatUint n \<and> n < 2 ^ (intSize - 1) \<longrightarrow>
            Uidl_part_000 (conn\<lparr>Reader := Inr line # rs\<rparr>) msgSeqNum
              = Return (of_nat n, None,
                  conn\<lparr>Reader := rs,
                    Writer := Writer conn @ [''LIST '' @ FormatUint (unat msgSeqNum) @ crlf]\<rparr>))
       \<and> (\<not> isDecimal (Fields (drop 4 line) ! 1) \<longrightarrow>
            Uidl_part_000 (conn\<lparr>Reader := Inr line # rs\<rparr>) msgSeqNum
              = Return (0, Some invalidResponse,
                  conn\<lparr>Reader := rs,
                    Writer := Writer conn @ [''LIST '' @ FormatUint (unat msgSeqNum) @ crlf]\<rparr>))"
proof -
  have sd: "Text (setDeadline (client\<lparr>Text := c\<rparr>)) = c"
    "setDeadline (client\<lparr>Text := c\<rparr>)\<lparr>Text := c2\<rparr> = (setDeadline client)\<lparr>Text := c2\<rparr>" for c c2
    by (simp_all add: setDeadline_def)
  have 1: "Uidl (client\<lparr>Text := conn\<lparr>Reader := Inr line # rs\<rparr>\<rparr>) msgSeqNum
           = Return (Fields (drop 4 line) ! 1, None,
               resetDeadline ((setDeadline client)\<lparr>Text := conn\<lparr>Reader := rs,
                 Writer := Writer conn @ [''UIDL '' @ FormatUint (unat msgSeqNum) @ crlf]\<rparr>\<rparr>))"
    using assms(2) by (simp add: Uidl_def sd Cmd_positive [OF assms(1)])
  have 2: "Uidl_part_000 (conn\<lparr>Reader := Inr line # rs\<rparr>) msgSeqNum
              = Return (0, Some invalidResponse,
                  conn\<lparr>Reader := rs,
                    Writer := Writer conn @ [''LIST '' @ FormatUint (unat msgSeqNum) @ crlf]\<rparr>)"
    if "\<not> isDecimal (Fields (drop 4 line) ! 1)"
    using assms(2) stringToUint32_not_decimal [OF that]
    by (simp add: Uidl_part_000_def Cmd_positive [OF assms(1)])
  have 3: "Uidl_part_000 (conn\<lparr>Reader := Inr line # rs\<rparr>) msgSeqNum
              = Return (of_nat n, None,
                  conn\<lparr>Reader := rs,
                    Writer := Writer conn @ [''LIST '' @ FormatUint (unat msgSeqNum) @ crlf]\<rparr>)"
    if "Fields (drop 4 line) ! 1 = FormatUint n" and "n < 2 ^ (intSize - 1)"
    using assms(2) stringToUint32_FormatUint [OF that(2)] that(1)
    by (simp add: Uidl_part_000_def Cmd_positive [OF assms(1)])
  show ?thesis using 1 2 3 by blast
qed

theorem Uidl_variants_witness:
  "take 3 ''+OK 1 whqtswO00WBw418f9t5JxYwZ'' = okResponse
   \<and> Fields (drop 4 ''+OK 1 whqtswO00WBw418f9t5JxYwZ'') = [''1'', ''whqtswO00WBw418f9t5JxYwZ'']
   \<and> \<not> isDecimal ''whqtswO00WBw418f9t5JxYwZ''
   \<and> Uidl \<lparr>Text = NewConnection [Inr ''+OK 1 whqtswO00WBw418f9t5JxYwZ''], deadline = None, timeout = 0, now = 100\<rparr> 1
       = Return (''whqtswO00WBw418f9t5JxYwZ'', None,
           \<lparr>Text = \<lparr>Reader = [], Writer = [''UIDL 1'' @ crlf], closed = False\<rparr>,
            deadline = None, timeout = 0, now = 100\<rparr>)
   \<and> Uidl_part_000 (NewConnection [Inr ''+OK 1 whqtswO00WBw418f9t5JxYwZ'']) 1
       = Return (0, Some invalidResponse, \<lparr>Reader = [], Writer = [''LIST 1'' @ crlf], closed = False\<rparr>)
   \<and> take 3 ''+OK 1 12345'' = okResponse
   \<and> Fields (drop 4 ''+OK 1 12345'') = [''1'', ''12345''] \<and> FormatUint 12345 = ''12345''
   \<and> (12345 :: nat) < 2 ^ (intSize - 1)
   \<and> Uidl \<lparr>Text = NewConnection [Inr ''+OK 1 12345''], deadline = None, timeout = 0, now = 100\<rparr> 1
       = Return (''12345'', None,
           \<lparr>Text = \<lparr>Reader = [], Writer = [''UIDL 1'' @ crlf], closed = False\<rparr>,
            deadline = None, timeout = 0, now = 100\<rparr>)
   \<and> Uidl_part_000 (NewConnection [Inr ''+OK 1 12345'']) 1
       = Return (12345, None, \<lparr>Reader = [], Writer = [''LIST 1'' @ crlf], closed = False\<rparr>)"
proof -
  let ?l = "''+OK 1 whqtswO00WBw418f9t5JxYwZ''"
  let ?m = "''+OK 1 12345''"
  let ?c = "\<lparr>Text = NewConnection [], deadline = None, timeout = 0, now = 100\<rparr>"
  have ok: "take 3 ?l = okResponse" "take 3 ?m = okResponse" by (simp_all add: okResponse_def)
  have num: "FormatUint 12345 = ''12345''" by (simp add: FormatUint.simps digits_def)
  have f: "Fields (drop 4 ?l) = [''1'', ''whqtswO00WBw418f9t5JxYwZ'']"
    "Fields (drop 4 ?m) = [''1'', FormatUint 12345]"
    by (simp_all add: num Fields_def isSpace_def)
  have n: "2 \<le> length (Fields (drop 4 ?l))" "2 \<le> length (Fields (drop 4 ?m))"
    by (simp_all only: f) simp_all
  have d: "\<not> isDecimal ''whqtswO00WBw418f9t5JxYwZ''"
    by (simp add: isDecimal_def isDigit_def)
  have r: "(12345 :: nat) < 2 ^ (intSize - 1)" by (simp add: intSize_def)
  have u: "FormatUint (Suc 0) = ''1''"
    by (simp add: FormatUint.simps digits_def)
  show ?thesis
    using ok f d r num
      Uidl_variants [OF ok(1) n(1), where client = ?c and conn = "NewConnection []"
        and rs = "[]" and msgSeqNum = 1 and n = 0]
      Uidl_variants [OF ok(2) n(2), where client = ?c and conn = "NewConnection []"
        and rs = "[]" and msgSeqNum = 1 and n = 12345]
    by (simp add: u num NewConnection_def setDeadline_def resetDeadline_def)
qed

subsection \<open>Replies that do not have the expected shape\<close>










text \<open>
  A reply with too few fields is indexed unchecked and panics; and the error of a
  malformed reply is the very value a server can have rejected the command with.
\<close>

lemma missing_field_panics:
  "Stat \<lparr>Text = NewConnection [Inr ''+OK 3''], deadline = None, timeout = 0, now = 100\<rparr> = Panic"
  "Stat \<lparr>Text = NewConnection [Inr ''+OK''], deadline = None, timeout = 0, now = 100\<rparr> = Panic"
  "List \<lparr>Text = NewConnection [Inr ''+OK 1''], deadline = None, timeout = 0, now = 100\<rparr> 1 = Panic"
  "ListAll \<lparr>Text = NewConnection [Inr ''+OK'', Inr ''1'', Inr ''.''], deadline = None, timeout = 0, now = 100\<rparr> = Panic"
  by (simp_all add: Stat_def List_def ListAll_def ReadMultiLines_def endResponse_def run)

lemma rejection_same_error:
  "Stat \<lparr>Text = NewConnection [Inr ''-ERR Invalid server response''], deadline = None, timeout = 0, now = 100\<rparr>
     = Return (0, 0, Some invalidResponse,
         \<lparr>Text = \<lparr>Reader = [], Writer = [''STAT'' @ crlf], closed = False\<rparr>,
          deadline = None, timeout = 0, now = 100\<rparr>)"
  by (simp add: Stat_def run)

text \<open>
  The fields are those of \<open>strings.Fields\<close>: once the line holds a byte outside ASCII
  they are split at every Unicode space, so a no-break space separates two fields as a
  blank does.
\<close>

lemma Fields_no_break_space:
  "Fields [CHR ''7'', CHR 0xC2, CHR 0xA0, CHR ''8'', CHR '' '', CHR ''x''] = [''7'', ''8'', ''x'']"
  "Fields [CHR ''a'', CHR 0xC2, CHR 0xA0, CHR ''b''] = [''a'', ''b'']"
  "Fields [CHR ''a'', CHR 0xC2, CHR 0x85, CHR ''b''] = [''a'', ''b'']"
  "Fields [CHR ''a'', CHR 0xE2, CHR 0x80, CHR 0x83, CHR ''b''] = [''a'', ''b'']"
  "Fields [CHR ''a'', CHR 0xA0, CHR ''b''] = [[CHR ''a'', CHR 0xA0, CHR ''b'']]"
  "Fields [CHR ''a'', CHR 0xC3, CHR 0xA9, CHR '' '', CHR ''b''] = [[CHR ''a'', CHR 0xC3, CHR 0xA9], ''b'']"
  by (simp_all add: Fields_def isSpace_def DecodeRuneInString_def IsSpace_def byteAt_def
      RuneError_def Let_def)

lemma Stat_no_break_space:
  "Stat \<lparr>Text = NewConnection [Inr [CHR ''+'', CHR ''O'', CHR ''K'', CHR '' '', CHR ''7'',
            CHR 0xC2, CHR 0xA0, CHR ''8'', CHR '' '', CHR ''x'']],
          deadline = None, timeout = 0, now = 100\<rparr>
     = Return (7, 8, None,
         \<lparr>Text = \<lparr>Reader = [], Writer = [''STAT'' @ crlf], closed = False\<rparr>,
          deadline = None, timeout = 0, now = 100\<rparr>)"
  by (simp add: Stat_def run Fields_def isSpace_def DecodeRuneInString_def IsSpace_def byteAt_def
      RuneError_def Let_def)

lemma Uidl_no_break_space:
  "Uidl \<lparr>Text = NewConnection [Inr [CHR ''+'', CHR ''O'', CHR ''K'', CHR '' '', CHR ''1'',
            CHR '' '', CHR ''a'', CHR 0xC2, CHR 0xA0, CHR ''b'']],
          deadline = None, timeout = 0, now = 100\<rparr> 1
     = Return (''a'',  None,
         \<lparr>Text = \<lparr>Reader = [], Writer = [''UIDL 1'' @ crlf], closed = False\<rparr>,
          deadline = None, timeout = 0, now = 100\<rparr>)"
  by (simp add: Uidl_def run Fields_def isSpace_def DecodeRuneInString_def IsSpace_def byteAt_def
      RuneError_def Let_def FormatUint.simps digits_def)

end
